theory Spec2Isabelle
  imports Complex_Main "HOL-Library.Word" "HOL-Library.Monad_Syntax"
begin

unbundle bit_operations_syntax

section \<open>The shared CPU/GPU layout header \<^verbatim>\<open>ShaderTypes.h\<close>\<close>

text \<open>
  The header declares two structs and, when the macro \<^verbatim>\<open>__METAL__\<close> is not defined, a
  fallback \<^verbatim>\<open>packed_float3\<close>. It is compiled twice: by the host compiler (C, Objective-C,
  C++ or the Swift importer; \<^verbatim>\<open>__METAL__\<close> undefined) and by the Metal shader compiler
  (\<^verbatim>\<open>__METAL__\<close> defined). The header has no functions: what it fixes is the object
  representation of the two structs. The model therefore has three layers:
  \<^item> the declarations of the header, as type descriptors, one per compilation target;
  \<^item> the layout rule both compilers apply to a struct (each member at the next offset
    that is a multiple of its alignment, the size rounded up to the struct's alignment);
  \<^item> storing and loading a struct value member by member at the offsets the layout
    rule gives, in a byte-addressed memory.
  A \<^verbatim>\<open>float\<close> is carried as its 32-bit pattern (IEEE 754 binary32); no floating-point
  arithmetic takes place anywhere in the header.
\<close>

subsection \<open>Compilation targets and type descriptors\<close>

text \<open>\<open>Host\<close>: \<^verbatim>\<open>__METAL__\<close> is not defined. \<open>Metal\<close>: it is defined.\<close>

datatype target = Host | Metal

definition defined_METAL :: "target \<Rightarrow> bool" where
  "defined_METAL tg = (tg = Metal)"

text \<open>The two scalar types the header uses: \<^verbatim>\<open>float\<close> and \<^verbatim>\<open>unsigned int\<close>.\<close>

datatype scalar = Float | UInt

text \<open>
  A type is a scalar, a packed vector of \<open>n\<close> scalars (the built-in vector types with
  the alignment of their component), a SIMD vector of \<open>n \<le> 4\<close> scalars (the default
  vector types such as \<^verbatim>\<open>simd_float3\<close>, aligned to their size, three components
  stored in the space of four), or a struct with named members in declaration order.
  The header uses no SIMD vector; the constructor is there to show what the packed types
  avoid.
\<close>

datatype ctype =
    Scalar scalar
  | Packed scalar nat
  | Vector scalar nat
  | Struct "(string \<times> ctype) list"

text \<open>
  Modelled from the spec: the widths of the scalar types are fixed by the two compilers,
  not by the header: 32-bit \<^verbatim>\<open>float\<close> and 32-bit \<^verbatim>\<open>unsigned int\<close> on both targets,
  each aligned to its size.
\<close>

fun scalar_size :: "target \<Rightarrow> scalar \<Rightarrow> nat" where
  "scalar_size Host Float = 4"
| "scalar_size Host UInt = 4"
| "scalar_size Metal Float = 4"
| "scalar_size Metal UInt = 4"

fun scalar_align :: "target \<Rightarrow> scalar \<Rightarrow> nat" where
  "scalar_align Host Float = 4"
| "scalar_align Host UInt = 4"
| "scalar_align Metal Float = 4"
| "scalar_align Metal UInt = 4"

subsection \<open>The layout rule\<close>

text \<open>
  The rule of the C and C++ ABIs of the host and of the Metal shading language for a
  struct without bit-fields or attributes, which is all the header declares: the
  alignment of a struct is the largest alignment of its members; each member is placed,
  in declaration order, at the first offset not below the end of the previous member that
  is a multiple of the member's alignment; the size is the end of the last member rounded
  up to the alignment of the struct. (A struct without members does not occur.)
\<close>

definition align_up :: "nat \<Rightarrow> nat \<Rightarrow> nat" where
  "align_up n a = ((n + a - 1) div a) * a"

fun alignof :: "target \<Rightarrow> ctype \<Rightarrow> nat"
  and members_align :: "target \<Rightarrow> (string \<times> ctype) list \<Rightarrow> nat" where
  "alignof tg (Scalar s) = scalar_align tg s"
| "alignof tg (Packed s n) = scalar_align tg s"
| "alignof tg (Vector s n) = (if n = 3 then 4 else n) * scalar_size tg s"
| "alignof tg (Struct ms) = members_align tg ms"
| "members_align tg [] = 1"
| "members_align tg ((nm, t) # ms) = max (alignof tg t) (members_align tg ms)"

fun sizeof :: "target \<Rightarrow> ctype \<Rightarrow> nat"
  and members_end :: "target \<Rightarrow> nat \<Rightarrow> (string \<times> ctype) list \<Rightarrow> nat" where
  "sizeof tg (Scalar s) = scalar_size tg s"
| "sizeof tg (Packed s n) = n * scalar_size tg s"
| "sizeof tg (Vector s n) = (if n = 3 then 4 else n) * scalar_size tg s"
| "sizeof tg (Struct ms) = align_up (members_end tg 0 ms) (alignof tg (Struct ms))"
| "members_end tg off [] = off"
| "members_end tg off ((nm, t) # ms) =
     members_end tg (align_up off (alignof tg t) + sizeof tg t) ms"

text \<open>The members of a struct, and the offset of every member, in declaration order.\<close>

fun members :: "ctype \<Rightarrow> (string \<times> ctype) list" where
  "members (Struct ms) = ms"
| "members t = []"

fun member_offsets :: "target \<Rightarrow> nat \<Rightarrow> (string \<times> ctype) list \<Rightarrow> (string \<times> nat) list" where
  "member_offsets tg off [] = []"
| "member_offsets tg off ((nm, t) # ms) =
     (let here = align_up off (alignof tg t)
      in (nm, here) # member_offsets tg (here + sizeof tg t) ms)"

text \<open>The components of a vector are named \<open>x\<close>, \<open>y\<close>, \<open>z\<close>, \<open>w\<close>.\<close>

fun component_offsets :: "nat \<Rightarrow> nat \<Rightarrow> string list \<Rightarrow> (string \<times> nat) list" where
  "component_offsets stride off [] = []"
| "component_offsets stride off (nm # nms) = (nm, off) # component_offsets stride (off + stride) nms"

fun offsetof :: "target \<Rightarrow> ctype \<Rightarrow> string \<Rightarrow> nat option" where
  "offsetof tg (Scalar s) nm = None"
| "offsetof tg (Packed s n) nm =
     map_of (component_offsets (scalar_size tg s) 0 (take n [''x'', ''y'', ''z'', ''w''])) nm"
| "offsetof tg (Vector s n) nm =
     map_of (component_offsets (scalar_size tg s) 0 (take n [''x'', ''y'', ''z'', ''w''])) nm"
| "offsetof tg (Struct ms) nm = map_of (member_offsets tg 0 ms) nm"

text \<open>
  The scalars a type is made of, in declaration order, each with its byte offset (from
  \<open>base\<close>, the offset of the object itself).
\<close>

fun scalars :: "target \<Rightarrow> nat \<Rightarrow> ctype \<Rightarrow> (nat \<times> scalar) list"
  and member_scalars :: "target \<Rightarrow> nat \<Rightarrow> nat \<Rightarrow> (string \<times> ctype) list \<Rightarrow> (nat \<times> scalar) list" where
  "scalars tg base (Scalar s) = [(base, s)]"
| "scalars tg base (Packed s n) = map (\<lambda>i. (base + i * scalar_size tg s, s)) [0..<n]"
| "scalars tg base (Vector s n) = map (\<lambda>i. (base + i * scalar_size tg s, s)) [0..<n]"
| "scalars tg base (Struct ms) = member_scalars tg base 0 ms"
| "member_scalars tg base off [] = []"
| "member_scalars tg base off ((nm, t) # ms) =
     (let here = align_up off (alignof tg t)
      in scalars tg (base + here) t @ member_scalars tg base (here + sizeof tg t) ms)"

text \<open>
  The padding of a type: the byte offsets inside the object that belong to no scalar.
\<close>

definition in_scalar :: "target \<Rightarrow> nat \<Rightarrow> nat \<times> scalar \<Rightarrow> bool" where
  "in_scalar tg i p = (fst p \<le> i \<and> i < fst p + scalar_size tg (snd p))"

definition padding :: "target \<Rightarrow> ctype \<Rightarrow> nat list" where
  "padding tg t = filter (\<lambda>i. \<not> list_ex (in_scalar tg i) (scalars tg 0 t)) [0..<sizeof tg t]"

subsection \<open>The declarations of the header\<close>

text \<open>
  Modelled from the spec: \<^verbatim>\<open>simd_packed_float2\<close> comes from \<^verbatim>\<open><simd/simd.h>\<close>, a system
  header outside the repository, on both targets. It is the packed vector of two
  \<^verbatim>\<open>float\<close> components: 8 bytes, aligned like a \<^verbatim>\<open>float\<close>.
\<close>

definition simd_packed_float2_t :: "target \<Rightarrow> ctype" where
  "simd_packed_float2_t tg = Packed Float 2"

text \<open>
  \<^verbatim>\<open>#ifndef __METAL__\<close>
  \<^verbatim>\<open>typedef struct { float x; float y; float z; } packed_float3;\<close>
  \<^verbatim>\<open>#endif\<close>

  Modelled from the spec: when \<^verbatim>\<open>__METAL__\<close> is defined the name refers to the Metal
  built-in \<^verbatim>\<open>packed_float3\<close>, three packed \<^verbatim>\<open>float\<close> components with no padding between
  them; the built-in is part of the shading language, not of the repository.
\<close>

definition packed_float3_t :: "target \<Rightarrow> ctype" where
  "packed_float3_t tg =
     (if defined_METAL tg then Packed Float 3
      else Struct [(''x'', Scalar Float), (''y'', Scalar Float), (''z'', Scalar Float)])"

text \<open>\<^verbatim>\<open>struct MeshVertex { packed_float3 position; packed_float3 normal; simd_packed_float2 uv; };\<close>\<close>

definition MeshVertex_t :: "target \<Rightarrow> ctype" where
  "MeshVertex_t tg =
     Struct [(''position'', packed_float3_t tg),
             (''normal'', packed_float3_t tg),
             (''uv'', simd_packed_float2_t tg)]"

text \<open>\<^verbatim>\<open>struct WaveDescriptor { unsigned int segmentCount; float time; float waveDensity; float amplitude; };\<close>\<close>

definition WaveDescriptor_t :: "target \<Rightarrow> ctype" where
  "WaveDescriptor_t tg =
     Struct [(''segmentCount'', Scalar UInt),
             (''time'', Scalar Float),
             (''waveDensity'', Scalar Float),
             (''amplitude'', Scalar Float)]"

text \<open>
  The header as the sequence of its top-level items, after preprocessing for a target.
  \<open>Static_assert\<close> is the one form of declaration that checks a layout at compile time;
  it carries the truth value of its condition.
\<close>

datatype decl =
    Pragma_once
  | Include string
  | Typedef ctype string
  | Struct_def string ctype
  | Static_assert bool

definition ShaderTypes_h :: "target \<Rightarrow> decl list" where
  "ShaderTypes_h tg =
     [Pragma_once, Include ''simd/simd.h''] @
     (if defined_METAL tg then [] else [Typedef (packed_float3_t tg) ''packed_float3'']) @
     [Struct_def ''MeshVertex'' (MeshVertex_t tg),
      Struct_def ''WaveDescriptor'' (WaveDescriptor_t tg)]"

fun is_compile_time_check :: "decl \<Rightarrow> bool" where
  "is_compile_time_check (Static_assert c) = True"
| "is_compile_time_check d = False"

subsection \<open>Values\<close>

text \<open>
  A \<^verbatim>\<open>float\<close> is its IEEE 754 binary32 bit pattern, an \<^verbatim>\<open>unsigned int\<close> a 32-bit word.
\<close>

type_synonym float = "32 word"
type_synonym byte = "8 word"

record packed_float3 =
  x :: float
  y :: float
  z :: float

record simd_packed_float2 =
  x :: float
  y :: float

record MeshVertex =
  position :: packed_float3
  normal :: packed_float3
  uv :: simd_packed_float2

record WaveDescriptor =
  segmentCount :: "32 word"
  time :: float
  waveDensity :: float
  amplitude :: float

text \<open>
  The real number a bit pattern denotes: sign bit 31, biased exponent in bits 30..23,
  fraction in bits 22..0. Infinities and NaNs (exponent 255) denote no number.
\<close>

definition float_exponent :: "float \<Rightarrow> nat" where
  "float_exponent w = unat (take_bit 8 (drop_bit 23 w))"

definition float_fraction :: "float \<Rightarrow> nat" where
  "float_fraction w = unat (take_bit 23 w)"

definition float_value :: "float \<Rightarrow> real option" where
  "float_value w =
     (let sgn = (if bit w 31 then - 1 else 1);
          e = float_exponent w;
          m = float_fraction w
      in if e = 255 then None
         else if e = 0 then Some (sgn * real m * 2 / 2 ^ 150)
         else Some (sgn * real (2 ^ 23 + m) * 2 ^ e / 2 ^ 150))"

definition is_nan :: "float \<Rightarrow> bool" where
  "is_nan w = (float_exponent w = 255 \<and> float_fraction w \<noteq> 0)"

definition is_infinite :: "float \<Rightarrow> bool" where
  "is_infinite w = (float_exponent w = 255 \<and> float_fraction w = 0)"

subsection \<open>Memory\<close>

text \<open>
  Both targets are little-endian: the least significant byte of a 32-bit scalar is at
  the lowest address.
\<close>

definition le_bytes32 :: "32 word \<Rightarrow> byte list" where
  "le_bytes32 w = [ucast w, ucast (drop_bit 8 w), ucast (drop_bit 16 w), ucast (drop_bit 24 w)]"

fun le_word32 :: "byte list \<Rightarrow> 32 word option" where
  "le_word32 [b0, b1, b2, b3] =
     Some (ucast b0 OR push_bit 8 (ucast b1) OR push_bit 16 (ucast b2) OR push_bit 24 (ucast b3))"
| "le_word32 bs = None"

text \<open>
  A memory is a list of bytes, an address an index into it. An access that does not lie
  inside the memory fails.
\<close>

definition store_bytes :: "nat \<Rightarrow> byte list \<Rightarrow> byte list \<Rightarrow> byte list option" where
  "store_bytes addr bs mem =
     (if addr + length bs \<le> length mem
      then Some (take addr mem @ bs @ drop (addr + length bs) mem)
      else None)"

definition load_bytes :: "nat \<Rightarrow> nat \<Rightarrow> byte list \<Rightarrow> byte list option" where
  "load_bytes addr n mem =
     (if addr + n \<le> length mem then Some (take n (drop addr mem)) else None)"

definition store32 :: "nat \<Rightarrow> 32 word \<Rightarrow> byte list \<Rightarrow> byte list option" where
  "store32 addr w mem = store_bytes addr (le_bytes32 w) mem"

definition load32 :: "nat \<Rightarrow> byte list \<Rightarrow> 32 word option" where
  "load32 addr mem = load_bytes addr 4 mem \<bind> le_word32"

subsection \<open>Storing and loading the structs\<close>

text \<open>
  A struct value is stored member by member, each member at the address of the object
  plus the member's offset under the layout of the target that compiled the access;
  it is loaded the same way.
\<close>

definition write_packed_float3 ::
  "target \<Rightarrow> nat \<Rightarrow> packed_float3 \<Rightarrow> byte list \<Rightarrow> byte list option" where
  "write_packed_float3 tg addr v mem = do {
     ox \<leftarrow> offsetof tg (packed_float3_t tg) ''x'';
     oy \<leftarrow> offsetof tg (packed_float3_t tg) ''y'';
     oz \<leftarrow> offsetof tg (packed_float3_t tg) ''z'';
     m1 \<leftarrow> store32 (addr + ox) (packed_float3.x v) mem;
     m2 \<leftarrow> store32 (addr + oy) (packed_float3.y v) m1;
     store32 (addr + oz) (packed_float3.z v) m2
   }"

definition read_packed_float3 :: "target \<Rightarrow> nat \<Rightarrow> byte list \<Rightarrow> packed_float3 option" where
  "read_packed_float3 tg addr mem = do {
     ox \<leftarrow> offsetof tg (packed_float3_t tg) ''x'';
     oy \<leftarrow> offsetof tg (packed_float3_t tg) ''y'';
     oz \<leftarrow> offsetof tg (packed_float3_t tg) ''z'';
     vx \<leftarrow> load32 (addr + ox) mem;
     vy \<leftarrow> load32 (addr + oy) mem;
     vz \<leftarrow> load32 (addr + oz) mem;
     Some \<lparr> packed_float3.x = vx, y = vy, z = vz \<rparr>
   }"

definition write_simd_packed_float2 ::
  "target \<Rightarrow> nat \<Rightarrow> simd_packed_float2 \<Rightarrow> byte list \<Rightarrow> byte list option" where
  "write_simd_packed_float2 tg addr v mem = do {
     ox \<leftarrow> offsetof tg (simd_packed_float2_t tg) ''x'';
     oy \<leftarrow> offsetof tg (simd_packed_float2_t tg) ''y'';
     m1 \<leftarrow> store32 (addr + ox) (simd_packed_float2.x v) mem;
     store32 (addr + oy) (simd_packed_float2.y v) m1
   }"

definition read_simd_packed_float2 ::
  "target \<Rightarrow> nat \<Rightarrow> byte list \<Rightarrow> simd_packed_float2 option" where
  "read_simd_packed_float2 tg addr mem = do {
     ox \<leftarrow> offsetof tg (simd_packed_float2_t tg) ''x'';
     oy \<leftarrow> offsetof tg (simd_packed_float2_t tg) ''y'';
     vx \<leftarrow> load32 (addr + ox) mem;
     vy \<leftarrow> load32 (addr + oy) mem;
     Some \<lparr> simd_packed_float2.x = vx, y = vy \<rparr>
   }"

definition write_MeshVertex ::
  "target \<Rightarrow> nat \<Rightarrow> MeshVertex \<Rightarrow> byte list \<Rightarrow> byte list option" where
  "write_MeshVertex tg addr v mem = do {
     op \<leftarrow> offsetof tg (MeshVertex_t tg) ''position'';
     on \<leftarrow> offsetof tg (MeshVertex_t tg) ''normal'';
     ou \<leftarrow> offsetof tg (MeshVertex_t tg) ''uv'';
     m1 \<leftarrow> write_packed_float3 tg (addr + op) (position v) mem;
     m2 \<leftarrow> write_packed_float3 tg (addr + on) (normal v) m1;
     write_simd_packed_float2 tg (addr + ou) (uv v) m2
   }"

definition read_MeshVertex :: "target \<Rightarrow> nat \<Rightarrow> byte list \<Rightarrow> MeshVertex option" where
  "read_MeshVertex tg addr mem = do {
     op \<leftarrow> offsetof tg (MeshVertex_t tg) ''position'';
     on \<leftarrow> offsetof tg (MeshVertex_t tg) ''normal'';
     ou \<leftarrow> offsetof tg (MeshVertex_t tg) ''uv'';
     vp \<leftarrow> read_packed_float3 tg (addr + op) mem;
     vn \<leftarrow> read_packed_float3 tg (addr + on) mem;
     vu \<leftarrow> read_simd_packed_float2 tg (addr + ou) mem;
     Some \<lparr> position = vp, normal = vn, uv = vu \<rparr>
   }"

definition write_WaveDescriptor ::
  "target \<Rightarrow> nat \<Rightarrow> WaveDescriptor \<Rightarrow> byte list \<Rightarrow> byte list option" where
  "write_WaveDescriptor tg addr v mem = do {
     os \<leftarrow> offsetof tg (WaveDescriptor_t tg) ''segmentCount'';
     ot \<leftarrow> offsetof tg (WaveDescriptor_t tg) ''time'';
     ow \<leftarrow> offsetof tg (WaveDescriptor_t tg) ''waveDensity'';
     oa \<leftarrow> offsetof tg (WaveDescriptor_t tg) ''amplitude'';
     m1 \<leftarrow> store32 (addr + os) (segmentCount v) mem;
     m2 \<leftarrow> store32 (addr + ot) (time v) m1;
     m3 \<leftarrow> store32 (addr + ow) (waveDensity v) m2;
     store32 (addr + oa) (amplitude v) m3
   }"

definition read_WaveDescriptor :: "target \<Rightarrow> nat \<Rightarrow> byte list \<Rightarrow> WaveDescriptor option" where
  "read_WaveDescriptor tg addr mem = do {
     os \<leftarrow> offsetof tg (WaveDescriptor_t tg) ''segmentCount'';
     ot \<leftarrow> offsetof tg (WaveDescriptor_t tg) ''time'';
     ow \<leftarrow> offsetof tg (WaveDescriptor_t tg) ''waveDensity'';
     oa \<leftarrow> offsetof tg (WaveDescriptor_t tg) ''amplitude'';
     vs \<leftarrow> load32 (addr + os) mem;
     vt \<leftarrow> load32 (addr + ot) mem;
     vw \<leftarrow> load32 (addr + ow) mem;
     va \<leftarrow> load32 (addr + oa) mem;
     Some \<lparr> segmentCount = vs, time = vt, waveDensity = vw, amplitude = va \<rparr>
   }"

text \<open>
  Serialising a value: storing it at address 0 of a fresh zeroed buffer of exactly
  \<open>sizeof\<close> bytes. Deserialising: loading it from address 0 of a buffer.
\<close>

definition serialize_MeshVertex :: "target \<Rightarrow> MeshVertex \<Rightarrow> byte list option" where
  "serialize_MeshVertex tg v =
     write_MeshVertex tg 0 v (replicate (sizeof tg (MeshVertex_t tg)) 0)"

definition deserialize_MeshVertex :: "target \<Rightarrow> byte list \<Rightarrow> MeshVertex option" where
  "deserialize_MeshVertex tg bs = read_MeshVertex tg 0 bs"

definition serialize_WaveDescriptor :: "target \<Rightarrow> WaveDescriptor \<Rightarrow> byte list option" where
  "serialize_WaveDescriptor tg v =
     write_WaveDescriptor tg 0 v (replicate (sizeof tg (WaveDescriptor_t tg)) 0)"

definition deserialize_WaveDescriptor :: "target \<Rightarrow> byte list \<Rightarrow> WaveDescriptor option" where
  "deserialize_WaveDescriptor tg bs = read_WaveDescriptor tg 0 bs"

text \<open>
  The representation with no padding at all: the bytes of the members one after the
  other, in declaration order. The stores above are compared with it.
\<close>

definition packed_float3_bytes :: "packed_float3 \<Rightarrow> byte list" where
  "packed_float3_bytes v =
     le_bytes32 (packed_float3.x v) @ le_bytes32 (packed_float3.y v) @ le_bytes32 (packed_float3.z v)"

definition simd_packed_float2_bytes :: "simd_packed_float2 \<Rightarrow> byte list" where
  "simd_packed_float2_bytes v =
     le_bytes32 (simd_packed_float2.x v) @ le_bytes32 (simd_packed_float2.y v)"

definition MeshVertex_bytes :: "MeshVertex \<Rightarrow> byte list" where
  "MeshVertex_bytes v =
     packed_float3_bytes (position v) @ packed_float3_bytes (normal v) @
     simd_packed_float2_bytes (uv v)"

definition WaveDescriptor_bytes :: "WaveDescriptor \<Rightarrow> byte list" where
  "WaveDescriptor_bytes v =
     le_bytes32 (segmentCount v) @ le_bytes32 (time v) @ le_bytes32 (waveDensity v) @
     le_bytes32 (amplitude v)"

text \<open>The bit patterns of the \<^verbatim>\<open>float\<close> constants \<open>0.0\<close> and \<open>1.0\<close>.\<close>

definition float_zero :: float where
  "float_zero = 0"

definition float_one :: float where
  "float_one = 0x3F800000"

text \<open>
  For contrast, the vertex struct as it would be with the default SIMD vector types in
  place of the packed ones. The header does not declare it.
\<close>

definition simd_vertex_t :: ctype where
  "simd_vertex_t =
     Struct [(''position'', Vector Float 3), (''normal'', Vector Float 3), (''uv'', Vector Float 2)]"

text \<open>The vertex with position \<open>(0,0,0)\<close>, normal \<open>(0,1,0)\<close> and uv \<open>(0,0)\<close>.\<close>

definition up_vertex :: MeshVertex where
  "up_vertex =
     \<lparr> position = \<lparr> packed_float3.x = float_zero, y = float_zero, z = float_zero \<rparr>,
       normal = \<lparr> packed_float3.x = float_zero, y = float_one, z = float_zero \<rparr>,
       uv = \<lparr> simd_packed_float2.x = float_zero, y = float_zero \<rparr> \<rparr>"

text \<open>
  Values no arithmetic would leave alone: NaNs with a payload (quiet and signalling),
  both infinities, negative zero, a subnormal, and the largest segment count.
\<close>

definition special_vertex :: MeshVertex where
  "special_vertex =
     \<lparr> position = \<lparr> packed_float3.x = 0x7FC00001, y = 0x7F800000, z = 0xFF800000 \<rparr>,
       normal = \<lparr> packed_float3.x = 0x80000000, y = 0x7F800001, z = 0x00000001 \<rparr>,
       uv = \<lparr> simd_packed_float2.x = 0xFFFFFFFF, y = 0x7FFFFFFF \<rparr> \<rparr>"

definition special_descriptor :: WaveDescriptor where
  "special_descriptor =
     \<lparr> segmentCount = 0xFFFFFFFF, time = 0x7FC00001, waveDensity = 0xFF800000,
       amplitude = 0x80000000 \<rparr>"

section \<open>Layout facts\<close>

lemmas layout_defs =
  MeshVertex_t_def WaveDescriptor_t_def packed_float3_t_def simd_packed_float2_t_def
  defined_METAL_def align_up_def

lemma sizeof_MeshVertex: "sizeof tg (MeshVertex_t tg) = 32"
  by (cases tg) (simp_all add: layout_defs)

lemma sizeof_WaveDescriptor: "sizeof tg (WaveDescriptor_t tg) = 16"
  by (cases tg) (simp_all add: layout_defs)

lemma scalars_MeshVertex:
  "scalars tg 0 (MeshVertex_t tg) =
     [(0, Float), (4, Float), (8, Float), (12, Float), (16, Float), (20, Float), (24, Float),
      (28, Float)]"
  by (cases tg) (simp_all add: layout_defs upt_conv_Cons)

lemma scalars_WaveDescriptor:
  "scalars tg 0 (WaveDescriptor_t tg) = [(0, UInt), (4, Float), (8, Float), (12, Float)]"
  by (cases tg) (simp_all add: layout_defs)

lemma padding_MeshVertex: "padding tg (MeshVertex_t tg) = []"
  by (cases tg) (simp_all add: padding_def layout_defs in_scalar_def upt_conv_Cons)

lemma padding_WaveDescriptor: "padding tg (WaveDescriptor_t tg) = []"
  by (cases tg) (simp_all add: padding_def layout_defs in_scalar_def upt_conv_Cons)

text \<open>
  The layout rule does insert padding where the member types call for it: the same
  vertex declared with SIMD vectors is 48 bytes, 16 of them padding.
\<close>

lemma simd_vertex_padding:
  "sizeof tg simd_vertex_t = 48 \<and>
   offsetof tg simd_vertex_t ''normal'' = Some 16 \<and>
   offsetof tg simd_vertex_t ''uv'' = Some 32 \<and>
   padding tg simd_vertex_t = [12, 13, 14, 15, 28, 29, 30, 31, 40, 41, 42, 43, 44, 45, 46, 47]"
  by (cases tg) (simp_all add: simd_vertex_t_def padding_def align_up_def in_scalar_def upt_conv_Cons)

section \<open>Scalars in memory\<close>

lemma le_word32_le_bytes32: "le_word32 (le_bytes32 w) = Some w"
proof -
  have "(ucast (ucast w :: byte) :: 32 word) OR push_bit 8 (ucast (ucast (drop_bit 8 w) :: byte))
          OR push_bit 16 (ucast (ucast (drop_bit 16 w) :: byte))
          OR push_bit 24 (ucast (ucast (drop_bit 24 w) :: byte)) = w"
  proof (rule bit_word_eqI)
    fix n :: nat
    assume n: "n < LENGTH(32)"
    consider "n < 8" | "8 \<le> n" "n < 16" | "16 \<le> n" "n < 24" | "24 \<le> n"
      by linarith
    then show "bit ((ucast (ucast w :: byte) :: 32 word)
          OR push_bit 8 (ucast (ucast (drop_bit 8 w) :: byte))
          OR push_bit 16 (ucast (ucast (drop_bit 16 w) :: byte))
          OR push_bit 24 (ucast (ucast (drop_bit 24 w) :: byte))) n = bit w n"
      using n by cases (auto simp: bit_simps)
  qed
  then show ?thesis
    by (simp add: le_bytes32_def)
qed

lemma length_le_bytes32 [simp]: "length (le_bytes32 w) = 4"
  by (simp add: le_bytes32_def)

text \<open>Two stores at adjacent addresses are one store of the concatenation.\<close>

lemma store_bytes_then:
  "a' = a + length bs \<Longrightarrow>
   store_bytes a bs mem \<bind> store_bytes a' cs = store_bytes a (bs @ cs) mem"
  by (auto simp: store_bytes_def ac_simps)

lemma store_bytes_then_bind:
  "a' = a + length bs \<Longrightarrow>
   store_bytes a bs mem \<bind> (\<lambda>m. store_bytes a' cs m \<bind> k) = store_bytes a (bs @ cs) mem \<bind> k"
  by (auto simp: store_bytes_def ac_simps)

lemma store_bytes_whole: "length bs = length mem \<Longrightarrow> store_bytes 0 bs mem = Some bs"
  by (simp add: store_bytes_def)

lemma take_drop_take: "i + k \<le> n \<Longrightarrow> take k (drop i (take n xs)) = take k (drop i xs)"
  by (simp add: drop_take)

text \<open>A load inside a loaded range reads the corresponding part of it.\<close>

lemma load_bytes_sub:
  "load_bytes a n mem = Some bs \<Longrightarrow> i + k \<le> n \<Longrightarrow>
   load_bytes (a + i) k mem = Some (take k (drop i bs))"
  by (auto simp: load_bytes_def take_drop_take add.commute split: if_splits)

lemma load_bytes_sub0:
  "load_bytes a n mem = Some bs \<Longrightarrow> k \<le> n \<Longrightarrow> load_bytes a k mem = Some (take k bs)"
  using load_bytes_sub [of a n mem bs 0 k] by simp

lemma load32_sub:
  "load_bytes a n mem = Some bs \<Longrightarrow> i + 4 \<le> n \<Longrightarrow>
   load32 (a + i) mem = le_word32 (take 4 (drop i bs))"
  by (simp add: load32_def load_bytes_sub)

lemma load32_sub0:
  "load_bytes a n mem = Some bs \<Longrightarrow> 4 \<le> n \<Longrightarrow> load32 a mem = le_word32 (take 4 bs)"
  using load32_sub [of a n mem bs 0] by simp

lemma load_bytes_whole: "load_bytes 0 (length bs) bs = Some bs"
  by (simp add: load_bytes_def)

lemma load_bytes_store_bytes:
  "store_bytes a bs mem = Some mem' \<Longrightarrow> load_bytes a (length bs) mem' = Some bs"
  by (auto simp: store_bytes_def load_bytes_def split: if_splits)

section \<open>What the stores write and the loads read\<close>

lemma length_packed_float3_bytes [simp]: "length (packed_float3_bytes v) = 12"
  by (simp add: packed_float3_bytes_def)

lemma length_simd_packed_float2_bytes [simp]: "length (simd_packed_float2_bytes v) = 8"
  by (simp add: simd_packed_float2_bytes_def)

lemma length_MeshVertex_bytes [simp]: "length (MeshVertex_bytes v) = 32"
  by (simp add: MeshVertex_bytes_def)

lemma length_WaveDescriptor_bytes [simp]: "length (WaveDescriptor_bytes v) = 16"
  by (simp add: WaveDescriptor_bytes_def)

lemma write_packed_float3_eq:
  "write_packed_float3 tg a v mem = store_bytes a (packed_float3_bytes v) mem"
  by (cases tg)
     (simp_all add: write_packed_float3_def packed_float3_bytes_def layout_defs store32_def
        store_bytes_then store_bytes_then_bind)

lemma write_simd_packed_float2_eq:
  "write_simd_packed_float2 tg a v mem = store_bytes a (simd_packed_float2_bytes v) mem"
  by (cases tg)
     (simp_all add: write_simd_packed_float2_def simd_packed_float2_bytes_def layout_defs
        store32_def store_bytes_then store_bytes_then_bind)

lemma write_MeshVertex_eq:
  "write_MeshVertex tg a v mem = store_bytes a (MeshVertex_bytes v) mem"
  by (cases tg)
     (simp_all add: write_MeshVertex_def MeshVertex_bytes_def layout_defs
        write_packed_float3_eq write_simd_packed_float2_eq
        store_bytes_then store_bytes_then_bind)

lemma write_WaveDescriptor_eq:
  "write_WaveDescriptor tg a v mem = store_bytes a (WaveDescriptor_bytes v) mem"
  by (cases tg)
     (simp_all add: write_WaveDescriptor_def WaveDescriptor_bytes_def layout_defs store32_def
        store_bytes_then store_bytes_then_bind)

lemma read_packed_float3_eq:
  assumes "load_bytes a 12 mem = Some (packed_float3_bytes v)"
  shows "read_packed_float3 tg a mem = Some v"
proof -
  have "load32 a mem = Some (packed_float3.x v)"
    using load32_sub0 [OF assms] by (simp add: packed_float3_bytes_def le_word32_le_bytes32)
  moreover have "load32 (a + 4) mem = Some (packed_float3.y v)"
    using load32_sub [OF assms, of 4] by (simp add: packed_float3_bytes_def le_word32_le_bytes32)
  moreover have "load32 (a + 8) mem = Some (packed_float3.z v)"
    using load32_sub [OF assms, of 8] by (simp add: packed_float3_bytes_def le_word32_le_bytes32)
  ultimately show ?thesis
    by (cases tg) (simp_all add: read_packed_float3_def layout_defs)
qed

lemma read_simd_packed_float2_eq:
  assumes "load_bytes a 8 mem = Some (simd_packed_float2_bytes v)"
  shows "read_simd_packed_float2 tg a mem = Some v"
proof -
  have "load32 a mem = Some (simd_packed_float2.x v)"
    using load32_sub0 [OF assms]
    by (simp add: simd_packed_float2_bytes_def le_word32_le_bytes32)
  moreover have "load32 (a + 4) mem = Some (simd_packed_float2.y v)"
    using load32_sub [OF assms, of 4]
    by (simp add: simd_packed_float2_bytes_def le_word32_le_bytes32)
  ultimately show ?thesis
    by (cases tg) (simp_all add: read_simd_packed_float2_def layout_defs)
qed

lemma read_MeshVertex_eq:
  assumes "load_bytes a 32 mem = Some (MeshVertex_bytes v)"
  shows "read_MeshVertex tg a mem = Some v"
proof -
  have "load_bytes a 12 mem = Some (packed_float3_bytes (position v))"
    using load_bytes_sub0 [OF assms, of 12] by (simp add: MeshVertex_bytes_def)
  then have p: "read_packed_float3 tg a mem = Some (position v)"
    by (rule read_packed_float3_eq)
  have "load_bytes (a + 12) 12 mem = Some (packed_float3_bytes (normal v))"
    using load_bytes_sub [OF assms, of 12 12] by (simp add: MeshVertex_bytes_def)
  then have n: "read_packed_float3 tg (a + 12) mem = Some (normal v)"
    by (rule read_packed_float3_eq)
  have "load_bytes (a + 24) 8 mem = Some (simd_packed_float2_bytes (uv v))"
    using load_bytes_sub [OF assms, of 24 8] by (simp add: MeshVertex_bytes_def)
  then have u: "read_simd_packed_float2 tg (a + 24) mem = Some (uv v)"
    by (rule read_simd_packed_float2_eq)
  show ?thesis
    using p n u by (cases tg) (simp_all add: read_MeshVertex_def layout_defs)
qed

lemma read_WaveDescriptor_eq:
  assumes "load_bytes a 16 mem = Some (WaveDescriptor_bytes v)"
  shows "read_WaveDescriptor tg a mem = Some v"
proof -
  have "load32 a mem = Some (segmentCount v)"
    using load32_sub0 [OF assms] by (simp add: WaveDescriptor_bytes_def le_word32_le_bytes32)
  moreover have "load32 (a + 4) mem = Some (time v)"
    using load32_sub [OF assms, of 4] by (simp add: WaveDescriptor_bytes_def le_word32_le_bytes32)
  moreover have "load32 (a + 8) mem = Some (waveDensity v)"
    using load32_sub [OF assms, of 8] by (simp add: WaveDescriptor_bytes_def le_word32_le_bytes32)
  moreover have "load32 (a + 12) mem = Some (amplitude v)"
    using load32_sub [OF assms, of 12] by (simp add: WaveDescriptor_bytes_def le_word32_le_bytes32)
  ultimately show ?thesis
    by (cases tg) (simp_all add: read_WaveDescriptor_def layout_defs)
qed

lemma serialize_MeshVertex_eq: "serialize_MeshVertex tg v = Some (MeshVertex_bytes v)"
  by (simp add: serialize_MeshVertex_def write_MeshVertex_eq sizeof_MeshVertex store_bytes_whole)

lemma serialize_WaveDescriptor_eq:
  "serialize_WaveDescriptor tg v = Some (WaveDescriptor_bytes v)"
  by (simp add: serialize_WaveDescriptor_def write_WaveDescriptor_eq sizeof_WaveDescriptor
      store_bytes_whole)

lemma deserialize_MeshVertex_bytes: "deserialize_MeshVertex tg (MeshVertex_bytes v) = Some v"
  unfolding deserialize_MeshVertex_def
  using load_bytes_whole [of "MeshVertex_bytes v"] by (intro read_MeshVertex_eq) simp

lemma deserialize_WaveDescriptor_bytes:
  "deserialize_WaveDescriptor tg (WaveDescriptor_bytes v) = Some v"
  unfolding deserialize_WaveDescriptor_def
  using load_bytes_whole [of "WaveDescriptor_bytes v"] by (intro read_WaveDescriptor_eq) simp

section \<open>The claims\<close>

text \<open>
  C1. A MeshVertex and a WaveDescriptor written through the CPU-side representation
  (serialised under the host layout) and read back through the GPU-side representation
  (deserialised under the Metal layout) come back with every field identical. It holds
  for every field value, so for every valid one.
\<close>

theorem host_to_metal_roundtrip:
  "(serialize_MeshVertex Host v \<bind> deserialize_MeshVertex Metal) = Some v \<and>
   (serialize_WaveDescriptor Host w \<bind> deserialize_WaveDescriptor Metal) = Some w"
  by (simp add: serialize_MeshVertex_eq serialize_WaveDescriptor_eq
      deserialize_MeshVertex_bytes deserialize_WaveDescriptor_bytes)

text \<open>
  C2. On either target a MeshVertex is exactly 8 \<^verbatim>\<open>float\<close> components, 3 for position,
  3 for normal and 2 for uv: 32 bytes with 4-byte floats, none of them padding, and every
  instance serialises to 32 bytes.
\<close>

theorem MeshVertex_size_32_no_padding:
  "sizeof tg (MeshVertex_t tg) = 32 \<and>
   sizeof tg (MeshVertex_t tg) = (3 + 3 + 2) * scalar_size tg Float \<and>
   map (\<lambda>(nm, t). (nm, map snd (scalars tg 0 t))) (members (MeshVertex_t tg)) =
     [(''position'', [Float, Float, Float]), (''normal'', [Float, Float, Float]),
      (''uv'', [Float, Float])] \<and>
   padding tg (MeshVertex_t tg) = [] \<and>
   map_option length (serialize_MeshVertex tg v) = Some 32"
proof -
  have "map (\<lambda>(nm, t). (nm, map snd (scalars tg 0 t))) (members (MeshVertex_t tg)) =
     [(''position'', [Float, Float, Float]), (''normal'', [Float, Float, Float]),
      (''uv'', [Float, Float])]"
    by (cases tg) (simp_all add: layout_defs upt_conv_Cons)
  moreover have "scalar_size tg Float = 4"
    by (cases tg) simp_all
  ultimately show ?thesis
    by (simp add: sizeof_MeshVertex padding_MeshVertex serialize_MeshVertex_eq)
qed

text \<open>
  C3. On either target a WaveDescriptor is exactly one 32-bit unsigned integer and three
  \<^verbatim>\<open>float\<close>s, 16 bytes, laid out in the declared order segmentCount, time,
  waveDensity, amplitude.
\<close>

theorem WaveDescriptor_size_16_in_order:
  "sizeof tg (WaveDescriptor_t tg) = 16 \<and>
   sizeof tg (WaveDescriptor_t tg) = scalar_size tg UInt + 3 * scalar_size tg Float \<and>
   member_offsets tg 0 (members (WaveDescriptor_t tg)) =
     [(''segmentCount'', 0), (''time'', 4), (''waveDensity'', 8), (''amplitude'', 12)] \<and>
   scalars tg 0 (WaveDescriptor_t tg) = [(0, UInt), (4, Float), (8, Float), (12, Float)] \<and>
   padding tg (WaveDescriptor_t tg) = [] \<and>
   map_option length (serialize_WaveDescriptor tg w) = Some 16"
proof -
  have "member_offsets tg 0 (members (WaveDescriptor_t tg)) =
     [(''segmentCount'', 0), (''time'', 4), (''waveDensity'', 8), (''amplitude'', 12)]"
    by (cases tg) (simp_all add: layout_defs)
  moreover have "scalar_size tg UInt + 3 * scalar_size tg Float = 16"
    by (cases tg) simp_all
  ultimately show ?thesis
    by (simp add: sizeof_WaveDescriptor scalars_WaveDescriptor padding_WaveDescriptor
        serialize_WaveDescriptor_eq)
qed

text \<open>
  C4. In every context that includes the definition (either target) the members of
  MeshVertex come in the order position, normal, uv, every component is a 32-bit
  \<^verbatim>\<open>float\<close>, and each member starts where the previous one ends (0, 12, 24, with sizes
  12, 12, 8): no padding between the packed sub-components, nor inside them.
\<close>

theorem MeshVertex_layout_on_every_target:
  "map fst (members (MeshVertex_t tg)) = [''position'', ''normal'', ''uv''] \<and>
   member_offsets tg 0 (members (MeshVertex_t tg)) =
     [(''position'', 0), (''normal'', 12), (''uv'', 24)] \<and>
   map (\<lambda>(nm, t). sizeof tg t) (members (MeshVertex_t tg)) = [12, 12, 8] \<and>
   scalars tg 0 (MeshVertex_t tg) =
     [(0, Float), (4, Float), (8, Float), (12, Float), (16, Float), (20, Float), (24, Float),
      (28, Float)] \<and>
   scalar_size tg Float = 4 \<and>
   member_offsets Host 0 (members (MeshVertex_t Host)) =
     member_offsets Metal 0 (members (MeshVertex_t Metal)) \<and>
   scalars Host 0 (MeshVertex_t Host) = scalars Metal 0 (MeshVertex_t Metal)"
proof -
  have offs: "member_offsets tg' 0 (members (MeshVertex_t tg')) =
     [(''position'', 0), (''normal'', 12), (''uv'', 24)]" for tg'
    by (cases tg') (simp_all add: layout_defs)
  have "map fst (members (MeshVertex_t tg)) = [''position'', ''normal'', ''uv'']"
    by (simp add: MeshVertex_t_def)
  moreover have "map (\<lambda>(nm, t). sizeof tg t) (members (MeshVertex_t tg)) = [12, 12, 8]"
    by (cases tg) (simp_all add: layout_defs)
  moreover have "scalar_size tg Float = 4"
    by (cases tg) simp_all
  ultimately show ?thesis
    by (simp add: offs scalars_MeshVertex)
qed

text \<open>
  C5. The host definition (with the fallback struct of three floats) and the Metal
  definition (with the built-in packed type) are different declarations of
  \<^verbatim>\<open>packed_float3\<close>, yet both targets agree on \<open>sizeof\<close> and on the byte layout of
  MeshVertex and of WaveDescriptor: the same scalars at the same offsets, and stores and
  loads compiled for either target touch the same bytes of any memory.
\<close>

theorem host_and_metal_layouts_agree:
  "packed_float3_t Host \<noteq> packed_float3_t Metal \<and>
   sizeof Host (MeshVertex_t Host) = sizeof Metal (MeshVertex_t Metal) \<and>
   sizeof Host (WaveDescriptor_t Host) = sizeof Metal (WaveDescriptor_t Metal) \<and>
   scalars Host 0 (MeshVertex_t Host) = scalars Metal 0 (MeshVertex_t Metal) \<and>
   scalars Host 0 (WaveDescriptor_t Host) = scalars Metal 0 (WaveDescriptor_t Metal) \<and>
   write_MeshVertex Host a v mem = write_MeshVertex Metal a v mem \<and>
   write_WaveDescriptor Host a w mem = write_WaveDescriptor Metal a w mem \<and>
   read_MeshVertex Host a mem = read_MeshVertex Metal a mem \<and>
   read_WaveDescriptor Host a mem = read_WaveDescriptor Metal a mem"
proof -
  have "packed_float3_t Host \<noteq> packed_float3_t Metal"
    by (simp add: packed_float3_t_def defined_METAL_def)
  moreover have "read_MeshVertex Host a mem = read_MeshVertex Metal a mem"
    by (simp add: read_MeshVertex_def read_packed_float3_def read_simd_packed_float2_def
        layout_defs)
  moreover have "read_WaveDescriptor Host a mem = read_WaveDescriptor Metal a mem"
    by (simp add: read_WaveDescriptor_def layout_defs)
  ultimately show ?thesis
    by (simp add: sizeof_MeshVertex sizeof_WaveDescriptor scalars_MeshVertex
        scalars_WaveDescriptor write_MeshVertex_eq write_WaveDescriptor_eq)
qed

text \<open>
  C6, as stated, fails: the claim is that the source validates the layout by static
  size/offset assertions or an equivalent compile-time check. The header, preprocessed
  for either target, contains no such declaration.
\<close>

theorem header_has_no_compile_time_check:
  "\<not> list_ex is_compile_time_check (ShaderTypes_h Host) \<and>
   \<not> list_ex is_compile_time_check (ShaderTypes_h Metal)"
  by (simp add: ShaderTypes_h_def defined_METAL_def)

text \<open>
  C6, amended. The header contains no compile-time check on either target; the layout
  guarantee (no implicit padding, identical member order and offsets, identical scalar
  widths on both targets) holds as a consequence of the compilers' layout rule applied to
  the declared member types, and of nothing else in the source.
\<close>

theorem layout_holds_by_the_layout_rule_alone:
  "filter is_compile_time_check (ShaderTypes_h tg) = [] \<and>
   padding tg (MeshVertex_t tg) = [] \<and>
   padding tg (WaveDescriptor_t tg) = [] \<and>
   member_offsets Host 0 (members (MeshVertex_t Host)) =
     member_offsets Metal 0 (members (MeshVertex_t Metal)) \<and>
   member_offsets Host 0 (members (WaveDescriptor_t Host)) =
     member_offsets Metal 0 (members (WaveDescriptor_t Metal)) \<and>
   scalars Host 0 (MeshVertex_t Host) = scalars Metal 0 (MeshVertex_t Metal) \<and>
   scalars Host 0 (WaveDescriptor_t Host) = scalars Metal 0 (WaveDescriptor_t Metal) \<and>
   scalar_size Host Float = scalar_size Metal Float \<and>
   scalar_size Host UInt = scalar_size Metal UInt"
proof -
  have "filter is_compile_time_check (ShaderTypes_h tg) = []"
    by (cases tg) (simp_all add: ShaderTypes_h_def defined_METAL_def)
  moreover have "member_offsets Host 0 (members (MeshVertex_t Host)) =
     member_offsets Metal 0 (members (MeshVertex_t Metal))"
    by (simp add: layout_defs)
  moreover have "member_offsets Host 0 (members (WaveDescriptor_t Host)) =
     member_offsets Metal 0 (members (WaveDescriptor_t Metal))"
    by (simp add: layout_defs)
  ultimately show ?thesis
    by (simp add: padding_MeshVertex padding_WaveDescriptor scalars_MeshVertex
        scalars_WaveDescriptor)
qed

text \<open>
  C7. A WaveDescriptor whose segmentCount is 0 is an ordinary value for the layout:
  serialising it succeeds (four zero bytes followed by the three floats) and reading it
  back, on either target, succeeds and returns it; nothing rejects or guards the zero.
\<close>

theorem segmentCount_zero_is_accepted:
  "serialize_WaveDescriptor tg (w\<lparr>segmentCount := 0\<rparr>) =
     Some ([0, 0, 0, 0] @ le_bytes32 (time w) @ le_bytes32 (waveDensity w) @
           le_bytes32 (amplitude w)) \<and>
   (serialize_WaveDescriptor tg (w\<lparr>segmentCount := 0\<rparr>) \<bind> deserialize_WaveDescriptor tg') =
     Some (w\<lparr>segmentCount := 0\<rparr>)"
proof -
  have "le_bytes32 0 = [0, 0, 0, 0]"
    by (simp add: le_bytes32_def)
  then have "WaveDescriptor_bytes (w\<lparr>segmentCount := 0\<rparr>) =
     [0, 0, 0, 0] @ le_bytes32 (time w) @ le_bytes32 (waveDensity w) @ le_bytes32 (amplitude w)"
    by (simp add: WaveDescriptor_bytes_def)
  then show ?thesis
    using deserialize_WaveDescriptor_bytes [of tg' "w\<lparr>segmentCount := 0\<rparr>"]
    by (simp add: serialize_WaveDescriptor_eq)
qed

text \<open>
  C8. The vertex with position \<open>(0,0,0)\<close>, normal \<open>(0,1,0)\<close>, uv \<open>(0,0)\<close> serialises,
  on the producer's and on the consumer's target alike, to one fixed sequence of 32
  bytes: all zero except offsets 16 to 19, which hold the little-endian encoding
  \<open>00 00 80 3F\<close> of the float \<open>1.0\<close>.
\<close>

theorem up_vertex_bytes:
  "float_value float_zero = Some 0 \<and>
   float_value float_one = Some 1 \<and>
   le_bytes32 float_one = [0x00, 0x00, 0x80, 0x3F] \<and>
   serialize_MeshVertex tg up_vertex =
     Some [0, 0, 0, 0,  0, 0, 0, 0,  0, 0, 0, 0,
           0, 0, 0, 0,  0x00, 0x00, 0x80, 0x3F,  0, 0, 0, 0,
           0, 0, 0, 0,  0, 0, 0, 0] \<and>
   serialize_MeshVertex Host up_vertex = serialize_MeshVertex Metal up_vertex"
proof -
  have "float_value float_zero = Some 0"
    by (simp add: float_value_def float_zero_def float_exponent_def float_fraction_def)
  moreover have "float_value float_one = Some 1"
    by (simp add: float_value_def float_one_def float_exponent_def float_fraction_def)
  moreover have one: "le_bytes32 float_one = [0x00, 0x00, 0x80, 0x3F]"
    by (simp add: le_bytes32_def float_one_def)
  moreover have zero: "le_bytes32 float_zero = [0, 0, 0, 0]"
    by (simp add: le_bytes32_def float_zero_def)
  ultimately show ?thesis
    by (simp add: serialize_MeshVertex_eq MeshVertex_bytes_def packed_float3_bytes_def
        simd_packed_float2_bytes_def up_vertex_def)
qed

text \<open>
  C9. On the host the fallback \<^verbatim>\<open>packed_float3\<close> is exactly three 32-bit \<^verbatim>\<open>float\<close>
  members x, y, z at offsets 0, 4, 8, 12 contiguous bytes in all; the members of
  MeshVertex are at offsets 0, 12, 24 and those of WaveDescriptor at 0, 4, 8, 12.
\<close>

theorem host_member_offsets:
  "packed_float3_t Host = Struct [(''x'', Scalar Float), (''y'', Scalar Float), (''z'', Scalar Float)] \<and>
   scalar_size Host Float = 4 \<and>
   member_offsets Host 0 (members (packed_float3_t Host)) = [(''x'', 0), (''y'', 4), (''z'', 8)] \<and>
   sizeof Host (packed_float3_t Host) = 12 \<and>
   padding Host (packed_float3_t Host) = [] \<and>
   offsetof Host (MeshVertex_t Host) ''position'' = Some 0 \<and>
   offsetof Host (MeshVertex_t Host) ''normal'' = Some 12 \<and>
   offsetof Host (MeshVertex_t Host) ''uv'' = Some 24 \<and>
   offsetof Host (WaveDescriptor_t Host) ''segmentCount'' = Some 0 \<and>
   offsetof Host (WaveDescriptor_t Host) ''time'' = Some 4 \<and>
   offsetof Host (WaveDescriptor_t Host) ''waveDensity'' = Some 8 \<and>
   offsetof Host (WaveDescriptor_t Host) ''amplitude'' = Some 12"
proof -
  have "padding Host (packed_float3_t Host) = []"
    by (simp add: padding_def layout_defs in_scalar_def upt_conv_Cons)
  then show ?thesis
    by (simp add: layout_defs)
qed

text \<open>
  C10. Storing a MeshVertex or a WaveDescriptor anywhere in a memory that has room for
  it, under the layout of one target, and loading it from there under the layout of any
  target, succeeds and returns every field with its exact 32-bit pattern. The fields
  range over all 32-bit patterns: NaNs, infinities and negative zero among the floats,
  and every segmentCount from 0 to \<open>2^32 - 1\<close>; nothing is normalised, clamped or
  rejected.
\<close>

theorem bit_patterns_survive_store_and_load:
  assumes "a + sizeof tg (MeshVertex_t tg) \<le> length mem"
    and "b + sizeof tg (WaveDescriptor_t tg) \<le> length mem2"
  shows "(write_MeshVertex tg a v mem \<bind> read_MeshVertex tg' a) = Some v \<and>
    (write_WaveDescriptor tg b w mem2 \<bind> read_WaveDescriptor tg' b) = Some w"
proof
  from assms(1) obtain m' where m': "store_bytes a (MeshVertex_bytes v) mem = Some m'"
    by (simp add: store_bytes_def sizeof_MeshVertex)
  from load_bytes_store_bytes [OF m'] have "read_MeshVertex tg' a m' = Some v"
    by (intro read_MeshVertex_eq) simp
  with m' show "(write_MeshVertex tg a v mem \<bind> read_MeshVertex tg' a) = Some v"
    by (simp add: write_MeshVertex_eq)
  from assms(2) obtain m2' where m2': "store_bytes b (WaveDescriptor_bytes w) mem2 = Some m2'"
    by (simp add: store_bytes_def sizeof_WaveDescriptor)
  from load_bytes_store_bytes [OF m2'] have "read_WaveDescriptor tg' b m2' = Some w"
    by (intro read_WaveDescriptor_eq) simp
  with m2' show "(write_WaveDescriptor tg b w mem2 \<bind> read_WaveDescriptor tg' b) = Some w"
    by (simp add: write_WaveDescriptor_eq)
qed

text \<open>
  The same at the second element of an array of three vertices, and at a descriptor
  buffer, for a vertex and a descriptor holding NaNs with payloads, both infinities,
  negative zero and the largest segment count.
\<close>

theorem bit_patterns_survive_store_and_load_witness:
  "32 + sizeof Host (MeshVertex_t Host) \<le> length (replicate 96 (0xAA :: byte)) \<and>
   0 + sizeof Host (WaveDescriptor_t Host) \<le> length (replicate 16 (0 :: byte)) \<and>
   (write_MeshVertex Host 32 special_vertex (replicate 96 0xAA) \<bind> read_MeshVertex Metal 32) =
     Some special_vertex \<and>
   (write_WaveDescriptor Host 0 special_descriptor (replicate 16 0) \<bind> read_WaveDescriptor Metal 0) =
     Some special_descriptor \<and>
   is_nan (packed_float3.x (position special_vertex)) \<and>
   is_infinite (packed_float3.y (position special_vertex)) \<and>
   is_infinite (packed_float3.z (position special_vertex)) \<and>
   float_value (packed_float3.x (normal special_vertex)) = float_value float_zero \<and>
   packed_float3.x (normal special_vertex) \<noteq> float_zero \<and>
   unat (segmentCount special_descriptor) = 2 ^ 32 - 1"
proof -
  have h1: "32 + sizeof Host (MeshVertex_t Host) \<le> length (replicate 96 (0xAA :: byte))"
    by (simp add: sizeof_MeshVertex)
  have h2: "0 + sizeof Host (WaveDescriptor_t Host) \<le> length (replicate 16 (0 :: byte))"
    by (simp add: sizeof_WaveDescriptor)
  have "is_nan (packed_float3.x (position special_vertex))"
    by (simp add: special_vertex_def is_nan_def float_exponent_def float_fraction_def)
  moreover have "is_infinite (packed_float3.y (position special_vertex))"
    by (simp add: special_vertex_def is_infinite_def float_exponent_def float_fraction_def)
  moreover have "is_infinite (packed_float3.z (position special_vertex))"
    by (simp add: special_vertex_def is_infinite_def float_exponent_def float_fraction_def)
  moreover have "float_value (packed_float3.x (normal special_vertex)) = float_value float_zero"
    by (simp add: special_vertex_def float_value_def float_zero_def float_exponent_def
        float_fraction_def)
  moreover have "packed_float3.x (normal special_vertex) \<noteq> float_zero"
    by (simp add: special_vertex_def float_zero_def)
  moreover have "unat (segmentCount special_descriptor) = 2 ^ 32 - 1"
    by (simp add: special_descriptor_def)
  ultimately show ?thesis
    using h1 h2
      bit_patterns_survive_store_and_load [OF h1 h2, of special_vertex Metal special_descriptor]
    by simp
qed

end
